theory Spec2Isabelle
  imports Complex_Main "HOL-Library.Multiset"
begin

section \<open>Data model\<close>

text \<open>
  Python strings are sequences of Unicode code points, so a string is a list of code
  points here (a \<open>char\<close> of HOL is a byte and cannot hold the CJK separators the text
  chunker looks for). Python's unbounded integers are \<open>int\<close>. Timestamps and durations
  are Python floats in the source; they are modelled by exact real numbers, so the
  rounding of IEEE arithmetic is outside this model.
\<close>

type_synonym ustring = "nat list"

definition ascii :: "string \<Rightarrow> ustring" where
  "ascii s = map of_char s"

definition unknown :: ustring where
  "unknown = ascii ''unknown''"

text \<open>Exceptions are values; \<open>str_of\<close> is Python's \<open>str(e)\<close>.\<close>

datatype py_error = Exception ustring | ValueError ustring | KeyError ustring

fun str_of :: "py_error \<Rightarrow> ustring" where
  "str_of (Exception m) = m"
| "str_of (ValueError m) = m"
| "str_of (KeyError k) = ascii [CHR 0x27] @ k @ ascii [CHR 0x27]"

text \<open>
  A word of a segment, a segment and a transcription result are the dictionaries that
  WhisperX returns. A segment always carries \<open>text\<close>, \<open>start\<close> and \<open>end\<close>; the key
  \<open>words\<close> may be absent (\<open>None\<close>). A result is read with \<open>result.get('segments', [])\<close>
  and \<open>result.get('language', 'unknown')\<close> by the merger, so both keys are optional.
\<close>

record word_ts =
  w_word :: ustring
  w_start :: real
  w_end :: real

record segment =
  seg_text :: ustring
  seg_start :: real
  seg_end :: real
  seg_words :: "word_ts list option"

record result =
  res_segments :: "segment list option"
  res_language :: "ustring option"

definition get_segments :: "result \<Rightarrow> segment list" where
  "get_segments r = (case res_segments r of None \<Rightarrow> [] | Some ss \<Rightarrow> ss)"

definition get_language :: "result \<Rightarrow> ustring" where
  "get_language r = (case res_language r of None \<Rightarrow> unknown | Some l \<Rightarrow> l)"

section \<open>Result merger: \<open>merge_transcription_results\<close>\<close>

text \<open>
  \<open>all_segments\<close> is the loop \<open>for result in results: all_segments.extend(...)\<close>.
  Python's \<open>list.sort(key=...)\<close> is a stable sort, as is \<open>sort_key\<close>.
\<close>

definition all_segments :: "result list \<Rightarrow> segment list" where
  "all_segments results = concat (map get_segments results)"

definition merge_transcription_results :: "result list \<Rightarrow> result" where
  "merge_transcription_results results =
     (case results of
        [] \<Rightarrow> \<lparr>res_segments = Some [], res_language = Some unknown\<rparr>
      | r0 # _ \<Rightarrow>
          \<lparr>res_segments = Some (sort_key seg_start (all_segments results)),
           res_language = Some (get_language r0)\<rparr>)"

section \<open>Python string and slice primitives\<close>

text \<open>The code points for which \<open>str.isspace\<close> holds; \<open>str.strip()\<close> removes them at both ends.\<close>

definition whitespace_points :: "nat list" where
  "whitespace_points =
     [9, 10, 11, 12, 13, 28, 29, 30, 31, 32, 133, 160, 5760, 8192, 8193, 8194, 8195, 8196,
      8197, 8198, 8199, 8200, 8201, 8202, 8232, 8233, 8239, 8287, 12288]"

definition isspace :: "nat \<Rightarrow> bool" where
  "isspace c = (c \<in> set whitespace_points)"

definition strip :: "ustring \<Rightarrow> ustring" where
  "strip s = rev (dropWhile isspace (rev (dropWhile isspace s)))"

text \<open>
  Slice bounds as Python normalises them for a sequence of length \<open>n\<close>: a negative bound
  counts from the end, and every bound is clamped to \<open>0..n\<close>.
\<close>

definition norm_index :: "int \<Rightarrow> int \<Rightarrow> int" where
  "norm_index n i = (if i < 0 then max 0 (n + i) else min i n)"

definition py_slice :: "'a list \<Rightarrow> int \<Rightarrow> int \<Rightarrow> 'a list" where
  "py_slice xs i j =
     (let n = int (length xs); a = norm_index n i; b = norm_index n j
      in take (nat (b - a)) (drop (nat a) xs))"

text \<open>
  \<open>text.rfind(sep, start, end)\<close> for a non-empty \<open>sep\<close>: the highest index \<open>i\<close> with
  \<open>text[i:i+len(sep)] == sep\<close> and the match inside \<open>text[start:end]\<close>, or \<open>-1\<close>.
\<close>

definition rfind :: "ustring \<Rightarrow> ustring \<Rightarrow> int \<Rightarrow> int \<Rightarrow> int" where
  "rfind text sep start end_pos =
     (let n = int (length text); a = norm_index n start; b = norm_index n end_pos;
          m = int (length sep)
      in if b - a < m then - 1
         else (case filter (\<lambda>i. take (length sep) (drop i text) = sep)
                      (rev [nat a ..< nat (b - m) + 1]) of
                 [] \<Rightarrow> - 1
               | i # _ \<Rightarrow> int i))"

section \<open>Segment transcriber: \<open>transcribe_chunk\<close>\<close>

text \<open>
  The WhisperX calls are parameters: each returns its value or raises.
  \<open>align\<close> returns a dictionary read with \<open>aligned_result.get('segments', valid_segments)\<close>,
  so its \<open>segments\<close> key is optional too.
\<close>

record ('audio, 'am, 'md) whisperx =
  load_audio :: "ustring \<Rightarrow> py_error + 'audio"
  transcribe :: "'audio \<Rightarrow> int \<Rightarrow> ustring option \<Rightarrow> py_error + result"
  align :: "segment list \<Rightarrow> 'am \<Rightarrow> 'md \<Rightarrow> 'audio \<Rightarrow> ustring \<Rightarrow> py_error + result"

definition shift_word :: "real \<Rightarrow> word_ts \<Rightarrow> word_ts" where
  "shift_word chunk_start w =
     w\<lparr>w_start := w_start w + chunk_start, w_end := w_end w + chunk_start\<rparr>"

definition shift_segment :: "real \<Rightarrow> segment \<Rightarrow> segment" where
  "shift_segment chunk_start s =
     s\<lparr>seg_start := seg_start s + chunk_start,
       seg_end := seg_end s + chunk_start,
       seg_words := map_option (map (shift_word chunk_start)) (seg_words s)\<rparr>"

definition has_text :: "segment \<Rightarrow> bool" where
  "has_text s = (strip (seg_text s) \<noteq> [])"

definition valid_word :: "word_ts \<Rightarrow> bool" where
  "valid_word w = (strip (w_word w) \<noteq> [] \<and> w_start w \<ge> 0 \<and> w_end w > w_start w)"

definition keep_valid_words :: "segment \<Rightarrow> segment" where
  "keep_valid_words s = s\<lparr>seg_words := map_option (filter valid_word) (seg_words s)\<rparr>"

definition language_or_unknown :: "ustring option \<Rightarrow> ustring" where
  "language_or_unknown language =
     (case language of None \<Rightarrow> unknown | Some l \<Rightarrow> if l = [] then unknown else l)"

text \<open>
  The body of the outer \<open>try\<close>. The first loop shifts every timestamp by \<open>chunk_start\<close>.
  When an alignment model and its metadata are given, the segments with text are
  aligned; then the second loop shifts whatever \<open>result['segments']\<close> holds by
  \<open>chunk_start\<close> again. The parameters \<open>model_name\<close> and \<open>audio_data\<close> of the source are
  never read and are left out.
\<close>

definition transcribe_chunk_body ::
  "('audio, 'am, 'md) whisperx \<Rightarrow> ustring \<Rightarrow> real \<Rightarrow> ustring \<Rightarrow> int \<Rightarrow> ustring option \<Rightarrow>
   'am option \<Rightarrow> 'md option \<Rightarrow> py_error + result" where
  "transcribe_chunk_body wx chunk_file chunk_start device batch_size language
     align_model align_metadata =
     (case load_audio wx chunk_file of
        Inl e \<Rightarrow> Inl e
      | Inr chunk_audio \<Rightarrow>
     (case transcribe wx chunk_audio batch_size language of
        Inl e \<Rightarrow> Inl e
      | Inr res \<Rightarrow>
     (case res_segments res of
        None \<Rightarrow> Inl (KeyError (ascii ''segments''))
      | Some segs \<Rightarrow>
          (let shifted = map (shift_segment chunk_start) segs in
           (case (align_model, align_metadata) of
              (Some am, Some md) \<Rightarrow>
                (let valid_segments = filter has_text shifted;
                     after_align =
                       (if valid_segments \<noteq> [] then
                          (case align wx valid_segments am md chunk_audio device of
                             Inr aligned_result \<Rightarrow>
                               (case res_segments aligned_result of
                                  Some aligned \<Rightarrow> aligned
                                | None \<Rightarrow> valid_segments)
                           | Inl align_error \<Rightarrow> map keep_valid_words shifted)
                        else shifted)
                 in Inr (res\<lparr>res_segments := Some (map (shift_segment chunk_start) after_align)\<rparr>))
            | _ \<Rightarrow> Inr (res\<lparr>res_segments := Some shifted\<rparr>))))))"

definition transcribe_chunk ::
  "('audio, 'am, 'md) whisperx \<Rightarrow> ustring \<Rightarrow> real \<Rightarrow> ustring \<Rightarrow> int \<Rightarrow> ustring option \<Rightarrow>
   'am option \<Rightarrow> 'md option \<Rightarrow> result" where
  "transcribe_chunk wx chunk_file chunk_start device batch_size language
     align_model align_metadata =
     (case transcribe_chunk_body wx chunk_file chunk_start device batch_size language
             align_model align_metadata of
        Inr res \<Rightarrow> res
      | Inl e \<Rightarrow> \<lparr>res_segments = Some [], res_language = Some (language_or_unknown language)\<rparr>)"

section \<open>Chunker: \<open>split_audio_file\<close> and the gate in \<open>transcribe_audio\<close>\<close>

text \<open>
  A span is the tuple \<open>(file, start, end)\<close>. The file is the original audio or the chunk
  file numbered \<open>chunk_index\<close>. The probed duration is a parameter, and so is the outcome
  of each \<open>ffmpeg\<close> run, \<open>ffmpeg_ok chunk_index start length\<close>.
\<close>

datatype audio_ref = Original | ChunkFile nat

type_synonym span = "audio_ref \<times> real \<times> real"

partial_function (option) split_loop ::
  "(nat \<Rightarrow> real \<Rightarrow> real \<Rightarrow> bool) \<Rightarrow> real \<Rightarrow> real \<Rightarrow> real \<Rightarrow> nat \<Rightarrow> span list \<Rightarrow> span list option"
  where
  "split_loop ffmpeg_ok duration chunk_duration start_time chunk_index chunks =
     (if start_time < duration then
        (if ffmpeg_ok chunk_index start_time
              (min (start_time + chunk_duration) duration - start_time)
         then split_loop ffmpeg_ok duration chunk_duration
                (min (start_time + chunk_duration) duration) (chunk_index + 1)
                (chunks @ [(ChunkFile chunk_index, start_time,
                            min (start_time + chunk_duration) duration)])
         else if chunk_index = 0 then Some [(Original, 0, duration)]
         else Some chunks)
      else Some chunks)"

definition split_audio_file ::
  "(nat \<Rightarrow> real \<Rightarrow> real \<Rightarrow> bool) \<Rightarrow> real \<Rightarrow> real \<Rightarrow> span list option" where
  "split_audio_file ffmpeg_ok duration chunk_duration =
     (if duration = 0 then Some [(Original, 0, duration)]
      else if duration \<le> chunk_duration then Some [(Original, 0, duration)]
      else split_loop ffmpeg_ok duration chunk_duration 0 0 [])"

definition should_chunk :: "bool \<Rightarrow> real \<Rightarrow> real \<Rightarrow> bool" where
  "should_chunk enable_chunking audio_duration chunk_duration =
     (enable_chunking \<and> audio_duration > chunk_duration * 1.5)"

text \<open>
  The spans \<open>transcribe_audio\<close> transcribes: those of \<open>split_audio_file\<close> when
  \<open>should_chunk\<close> holds, and otherwise the whole original file, which the source loads
  and transcribes in one piece.
\<close>

definition transcribe_audio_spans ::
  "(nat \<Rightarrow> real \<Rightarrow> real \<Rightarrow> bool) \<Rightarrow> bool \<Rightarrow> real \<Rightarrow> real \<Rightarrow> span list option" where
  "transcribe_audio_spans ffmpeg_ok enable_chunking audio_duration chunk_duration =
     (if should_chunk enable_chunking audio_duration chunk_duration
      then split_audio_file ffmpeg_ok audio_duration chunk_duration
      else Some [(Original, 0, audio_duration)])"





section \<open>Concurrency coordinators\<close>

text \<open>
  A thread pool runs the submitted work; \<open>as_completed\<close> yields the futures in the order
  in which they finish. That order is the parameter \<open>completion\<close>, a list of the indices
  under which the futures were stored in \<open>future_to_chunk\<close>; the outcome of the future
  stored under \<open>idx\<close> is \<open>future_result idx\<close>.

  In \<open>transcribe_audio\<close> each result is appended to \<open>results\<close> as its future completes;
  a future that raised is reported and adds nothing.
\<close>

fun collect_results :: "(nat \<Rightarrow> py_error + result) \<Rightarrow> nat list \<Rightarrow> result list \<Rightarrow> result list" where
  "collect_results future_result [] results = results"
| "collect_results future_result (idx # completion) results =
     (case future_result idx of
        Inr chunk_result \<Rightarrow> collect_results future_result completion (results @ [chunk_result])
      | Inl e \<Rightarrow> collect_results future_result completion results)"

text \<open>The list that \<open>transcribe_audio\<close> hands to \<open>merge_transcription_results\<close>.\<close>

definition transcribe_audio_results :: "(nat \<Rightarrow> py_error + result) \<Rightarrow> nat list \<Rightarrow> result list" where
  "transcribe_audio_results future_result completion = collect_results future_result completion []"

text \<open>
  The placeholder of a failed chunk summary, \<open>"[" + label + ": " + str(e) + "]"\<close> with the
  CJK label of the source.
\<close>

definition summary_failed :: "py_error \<Rightarrow> ustring" where
  "summary_failed e = [91, 32317, 32080, 22833, 25943, 58, 32] @ str_of e @ [93]"

text \<open>
  In \<open>summarize_text\<close> each summary is stored in \<open>results_dict\<close> under its chunk index, the
  placeholder when the future raised; afterwards the list is assembled by index,
  \<open>[results_dict[i] for i in range(1, total_chunks + 1) if i in results_dict]\<close>.
\<close>

fun collect_summaries ::
  "(nat \<Rightarrow> py_error + ustring) \<Rightarrow> nat list \<Rightarrow> (nat \<rightharpoonup> ustring) \<Rightarrow> (nat \<rightharpoonup> ustring)" where
  "collect_summaries future_result [] results_dict = results_dict"
| "collect_summaries future_result (chunk_idx # completion) results_dict =
     (case future_result chunk_idx of
        Inr summary \<Rightarrow>
          collect_summaries future_result completion (results_dict(chunk_idx \<mapsto> summary))
      | Inl e \<Rightarrow>
          collect_summaries future_result completion
            (results_dict(chunk_idx \<mapsto> summary_failed e)))"

definition assemble_summaries :: "(nat \<rightharpoonup> ustring) \<Rightarrow> nat \<Rightarrow> ustring list" where
  "assemble_summaries results_dict total_chunks =
     List.map_filter results_dict [1 ..< total_chunks + 1]"

text \<open>
  What the future stored under an index contributes: to the list of summaries, its summary
  or the placeholder; to the list of transcription results, its result or nothing.
\<close>

definition summary_of :: "(nat \<Rightarrow> py_error + ustring) \<Rightarrow> nat \<Rightarrow> ustring" where
  "summary_of future_result i =
     (case future_result i of Inr summary \<Rightarrow> summary | Inl e \<Rightarrow> summary_failed e)"

definition result_of :: "(nat \<Rightarrow> py_error + result) \<Rightarrow> nat \<Rightarrow> result option" where
  "result_of future_result idx =
     (case future_result idx of Inr chunk_result \<Rightarrow> Some chunk_result | Inl e \<Rightarrow> None)"

section \<open>Text chunker: \<open>split_text_into_chunks\<close>\<close>

text \<open>The separators in the order the source tries them.\<close>

definition separators :: "ustring list" where
  "separators = [[12290, 10], [12290, 32], [10, 10], [12290], [65281], [65311], [10]]"

text \<open>
  The \<open>for separator in [...]\<close> loop: the first separator found in \<open>text[start:end]\<close>
  moves \<open>end\<close> just behind its last occurrence; with none found \<open>end\<close> stays.
\<close>

fun cut_at_separator :: "ustring \<Rightarrow> int \<Rightarrow> int \<Rightarrow> ustring list \<Rightarrow> int" where
  "cut_at_separator text start end_pos [] = end_pos"
| "cut_at_separator text start end_pos (separator # rest) =
     (let last_sep = rfind text separator start end_pos
      in if last_sep \<noteq> - 1 then last_sep + int (length separator)
         else cut_at_separator text start end_pos rest)"

definition chunk_end :: "ustring \<Rightarrow> int \<Rightarrow> int \<Rightarrow> int" where
  "chunk_end text chunk_size start =
     (let text_length = int (length text);
          end_pos = min (start + chunk_size) text_length
      in if end_pos < text_length then cut_at_separator text start end_pos separators
         else end_pos)"

definition next_start :: "int \<Rightarrow> int \<Rightarrow> int \<Rightarrow> int" where
  "next_start end_pos chunk_overlap start = max (end_pos - chunk_overlap) (start + 1)"

definition append_chunk :: "ustring list \<Rightarrow> ustring \<Rightarrow> ustring list" where
  "append_chunk chunks chunk = (if chunk \<noteq> [] then chunks @ [chunk] else chunks)"

text \<open>The \<open>while start < text_length\<close> loop; \<open>None\<close> stands for a loop that never ends.\<close>

partial_function (option) split_text_loop ::
  "ustring \<Rightarrow> int \<Rightarrow> int \<Rightarrow> int \<Rightarrow> ustring list \<Rightarrow> ustring list option" where
  "split_text_loop text chunk_size chunk_overlap start chunks =
     (if start < int (length text) then
        split_text_loop text chunk_size chunk_overlap
          (next_start (chunk_end text chunk_size start) chunk_overlap start)
          (append_chunk chunks (strip (py_slice text start (chunk_end text chunk_size start))))
      else Some chunks)"

definition split_text_into_chunks :: "ustring \<Rightarrow> int \<Rightarrow> int \<Rightarrow> ustring list option" where
  "split_text_into_chunks text chunk_size chunk_overlap =
     (if text = [] then Some [] else split_text_loop text chunk_size chunk_overlap 0 [])"

text \<open>A chunk that may appear in the output: not empty, stripped, and not only whitespace.\<close>

definition good_chunk :: "ustring \<Rightarrow> bool" where
  "good_chunk chunk = (chunk \<noteq> [] \<and> strip chunk = chunk \<and> \<not> list_all isspace chunk)"

section \<open>Chunk summarizer and summary reducer: \<open>summarize_chunk\<close>, \<open>summarize_text\<close>\<close>











section \<open>Specification-side definitions\<close>

text \<open>
  The language of the merged transcript as the specification words it: that of the first
  result whose language is not \<open>unknown\<close>, and \<open>unknown\<close> without such a result.
\<close>

definition first_known_language :: "result list \<Rightarrow> ustring" where
  "first_known_language results =
     (case filter (\<lambda>r. get_language r \<noteq> unknown) results of
        [] \<Rightarrow> unknown
      | r # _ \<Rightarrow> get_language r)"

section \<open>Concrete inputs\<close>

text \<open>
  Transcription results returned for a chunk in segment-local time: one segment whose
  text is a single blank, and one spoken segment with a word timestamp.
\<close>

definition one_blank_segment :: result where
  "one_blank_segment =
     \<lparr>res_segments = Some [\<lparr>seg_text = [32], seg_start = 1, seg_end = 2, seg_words = None\<rparr>],
      res_language = Some (ascii ''en'')\<rparr>"

definition one_spoken_segment :: result where
  "one_spoken_segment =
     \<lparr>res_segments = Some [\<lparr>seg_text = ascii ''hi'', seg_start = 1, seg_end = 2,
         seg_words = Some [\<lparr>w_word = ascii ''hi'', w_start = 1, w_end = 2\<rparr>]\<rparr>],
      res_language = Some (ascii ''en'')\<rparr>"

text \<open>Services whose transcription returns \<open>r\<close> and whose alignment raises.\<close>

definition wx_align_raises :: "result \<Rightarrow> (unit, unit, unit) whisperx" where
  "wx_align_raises r =
     \<lparr>load_audio = (\<lambda>_. Inr ()),
      transcribe = (\<lambda>_ _ _. Inr r),
      align = (\<lambda>_ _ _ _ _. Inl (Exception (ascii ''align'')))\<rparr>"


text \<open>The result of the chunk numbered \<open>idx\<close>: one segment at its absolute time.\<close>

definition chunk_result_at :: "nat \<Rightarrow> py_error + result" where
  "chunk_result_at idx =
     Inr \<lparr>res_segments = Some [\<lparr>seg_text = ascii ''a'', seg_start = 60 * real idx,
                                 seg_end = 60 * real idx + 1, seg_words = None\<rparr>],
          res_language = Some (ascii ''en'')\<rparr>"



section \<open>Properties of the result merger\<close>

lemma get_segments_merge:
  "get_segments (merge_transcription_results rs) = sort_key seg_start (all_segments rs)"
  by (cases rs)
    (simp_all add: merge_transcription_results_def get_segments_def all_segments_def)

lemma mset_all_segments_rev: "mset (all_segments (rev rs)) = mset (all_segments rs)"
  by (induction rs) (simp_all add: all_segments_def)

lemma merge_language_Cons:
  "res_language (merge_transcription_results (r # rs)) = Some (get_language r)"
  by (simp add: merge_transcription_results_def)

text \<open>
  C10. Merging an empty list of results does not fail: it gives a transcript with an empty
  segment list and the language \<open>unknown\<close>.
\<close>

theorem merge_empty:
  "merge_transcription_results [] = \<lparr>res_segments = Some [], res_language = Some unknown\<rparr>"
  by (simp add: merge_transcription_results_def)

text \<open>
  C4, as the code has it. For a non-empty list of results the merged language is the
  language of the first result of the list, \<open>unknown\<close> when that result has no language,
  whether or not it is \<open>unknown\<close>; so it is \<open>unknown\<close> when every result's language is.
\<close>

theorem merge_language_first:
  "res_language (merge_transcription_results (r # rs)) = Some (get_language r)
   \<and> ((\<forall>x \<in> set (r # rs). get_language x = unknown) \<longrightarrow>
        res_language (merge_transcription_results (r # rs)) = Some unknown)"
  by (simp add: merge_transcription_results_def)

theorem merge_language_first_witness:
  "res_language (merge_transcription_results
     [\<lparr>res_segments = Some [], res_language = Some (ascii ''unknown'')\<rparr>,
      \<lparr>res_segments = None, res_language = None\<rparr>]) = Some unknown"
  using merge_language_first
    [of "\<lparr>res_segments = Some [], res_language = Some (ascii ''unknown'')\<rparr>"
        "[\<lparr>res_segments = None, res_language = None\<rparr>]"]
  by (simp add: get_language_def unknown_def)

text \<open>
  The claim as stated fails: with a first result of language \<open>unknown\<close> and a second of
  language \<open>en\<close>, the merged language is \<open>unknown\<close> and not \<open>en\<close>.
\<close>

theorem merge_language_counterexample:
  "res_language (merge_transcription_results
     [\<lparr>res_segments = Some [], res_language = Some unknown\<rparr>,
      \<lparr>res_segments = Some [], res_language = Some (ascii ''en'')\<rparr>])
   \<noteq> Some (first_known_language
     [\<lparr>res_segments = Some [], res_language = Some unknown\<rparr>,
      \<lparr>res_segments = Some [], res_language = Some (ascii ''en'')\<rparr>])"
  by (simp add: merge_transcription_results_def first_known_language_def get_language_def
      unknown_def ascii_def)

text \<open>
  C5, as the code has it. Merging the results in forward and in reverse order gives, in
  both cases, segments sorted by \<open>start\<close> by a stable sort (segments with the same start
  keep the order in which they were inserted), the same segments as a multiset and the
  same sequence of start times. The two merged segment lists are identical when different
  segments have different start times, and the two transcripts are identical when
  moreover the first and the last result carry the same language.
\<close>

theorem merge_reverse_order:
  "sorted (map seg_start (get_segments (merge_transcription_results rs)))
   \<and> sorted (map seg_start (get_segments (merge_transcription_results (rev rs))))
   \<and> filter (\<lambda>s. seg_start s = k) (get_segments (merge_transcription_results rs))
       = filter (\<lambda>s. seg_start s = k) (all_segments rs)
   \<and> filter (\<lambda>s. seg_start s = k) (get_segments (merge_transcription_results (rev rs)))
       = filter (\<lambda>s. seg_start s = k) (all_segments (rev rs))
   \<and> mset (get_segments (merge_transcription_results (rev rs)))
       = mset (get_segments (merge_transcription_results rs))
   \<and> map seg_start (get_segments (merge_transcription_results (rev rs)))
       = map seg_start (get_segments (merge_transcription_results rs))
   \<and> (inj_on seg_start (set (all_segments rs)) \<longrightarrow>
        get_segments (merge_transcription_results (rev rs))
          = get_segments (merge_transcription_results rs))
   \<and> (inj_on seg_start (set (all_segments rs)) \<and> rs \<noteq> []
        \<and> get_language (hd rs) = get_language (last rs) \<longrightarrow>
        merge_transcription_results (rev rs) = merge_transcription_results rs)"
proof -
  let ?fwd = "get_segments (merge_transcription_results rs)"
  let ?bwd = "get_segments (merge_transcription_results (rev rs))"
  have ms: "mset ?bwd = mset ?fwd"
    by (simp add: get_segments_merge mset_all_segments_rev)
  have s1: "sorted (map seg_start ?fwd)" and s2: "sorted (map seg_start ?bwd)"
    by (simp_all add: get_segments_merge)
  have "mset (map seg_start ?bwd) = mset (map seg_start ?fwd)"
    using ms by (metis mset_map)
  then have keys: "map seg_start ?bwd = map seg_start ?fwd"
    using s1 s2 by (metis properties_for_sort)
  have st1: "filter (\<lambda>s. seg_start s = k) ?fwd = filter (\<lambda>s. seg_start s = k) (all_segments rs)"
    and st2: "filter (\<lambda>s. seg_start s = k) ?bwd
                = filter (\<lambda>s. seg_start s = k) (all_segments (rev rs))"
    by (simp_all add: get_segments_merge sort_key_stable)
  have srt: "sort_key seg_start (all_segments (rev rs)) = sort_key seg_start (all_segments rs)"
    if "inj_on seg_start (set (all_segments rs))"
  proof -
    have "set (all_segments (rev rs)) = set (all_segments rs)"
      using mset_all_segments_rev [of rs] by (rule mset_eq_setD)
    with that have "inj_on seg_start (set (all_segments (rev rs)))" by simp
    then show ?thesis
      by (rule sort_key_eq_sort_key [OF mset_all_segments_rev])
  qed
  then have inj: "?bwd = ?fwd" if "inj_on seg_start (set (all_segments rs))"
    using that by (simp add: get_segments_merge)
  have whole: "merge_transcription_results (rev rs) = merge_transcription_results rs"
    if i: "inj_on seg_start (set (all_segments rs))" and ne: "rs \<noteq> []"
      and l: "get_language (hd rs) = get_language (last rs)"
  proof -
    obtain r rs' where rs: "rs = r # rs'" using ne by (cases rs) auto
    obtain q qs where rv: "rev rs = q # qs" using ne by (cases "rev rs") auto
    have "q = last rs" using rv ne by (metis hd_rev list.sel(1))
    then have lq: "get_language q = get_language r" using l rs by simp
    have "merge_transcription_results (rev rs)
            = \<lparr>res_segments = Some (sort_key seg_start (all_segments (rev rs))),
               res_language = Some (get_language q)\<rparr>"
      unfolding rv by (simp add: merge_transcription_results_def)
    also have "\<dots> = \<lparr>res_segments = Some (sort_key seg_start (all_segments rs)),
                      res_language = Some (get_language r)\<rparr>"
      using srt [OF i] lq by simp
    also have "\<dots> = merge_transcription_results rs"
      unfolding rs by (simp add: merge_transcription_results_def)
    finally show ?thesis .
  qed
  show ?thesis using s1 s2 st1 st2 ms keys inj whole by blast
qed

theorem merge_reverse_order_witness:
  "merge_transcription_results (rev
     [\<lparr>res_segments = Some [\<lparr>seg_text = ascii ''a'', seg_start = 0, seg_end = 1, seg_words = None\<rparr>],
       res_language = Some (ascii ''en'')\<rparr>,
      \<lparr>res_segments = Some [\<lparr>seg_text = ascii ''b'', seg_start = 60, seg_end = 61, seg_words = None\<rparr>],
       res_language = Some (ascii ''en'')\<rparr>])
   = merge_transcription_results
     [\<lparr>res_segments = Some [\<lparr>seg_text = ascii ''a'', seg_start = 0, seg_end = 1, seg_words = None\<rparr>],
       res_language = Some (ascii ''en'')\<rparr>,
      \<lparr>res_segments = Some [\<lparr>seg_text = ascii ''b'', seg_start = 60, seg_end = 61, seg_words = None\<rparr>],
       res_language = Some (ascii ''en'')\<rparr>]"
  using merge_reverse_order [of
     "[\<lparr>res_segments = Some [\<lparr>seg_text = ascii ''a'', seg_start = 0, seg_end = 1, seg_words = None\<rparr>],
       res_language = Some (ascii ''en'')\<rparr>,
      \<lparr>res_segments = Some [\<lparr>seg_text = ascii ''b'', seg_start = 60, seg_end = 61, seg_words = None\<rparr>],
       res_language = Some (ascii ''en'')\<rparr>]" 0]
  by (simp add: all_segments_def get_segments_def get_language_def)

text \<open>
  The claim as stated fails: two results whose segments start at the same time are merged
  in the order in which they are given, so the reverse order gives another transcript.
\<close>

theorem merge_reverse_order_counterexample:
  "merge_transcription_results (rev
     [\<lparr>res_segments = Some [\<lparr>seg_text = ascii ''a'', seg_start = 0, seg_end = 1, seg_words = None\<rparr>],
       res_language = Some (ascii ''en'')\<rparr>,
      \<lparr>res_segments = Some [\<lparr>seg_text = ascii ''b'', seg_start = 0, seg_end = 1, seg_words = None\<rparr>],
       res_language = Some (ascii ''en'')\<rparr>])
   \<noteq> merge_transcription_results
     [\<lparr>res_segments = Some [\<lparr>seg_text = ascii ''a'', seg_start = 0, seg_end = 1, seg_words = None\<rparr>],
       res_language = Some (ascii ''en'')\<rparr>,
      \<lparr>res_segments = Some [\<lparr>seg_text = ascii ''b'', seg_start = 0, seg_end = 1, seg_words = None\<rparr>],
       res_language = Some (ascii ''en'')\<rparr>]"
  by (simp add: merge_transcription_results_def all_segments_def get_segments_def ascii_def)

section \<open>Properties of the segment transcriber\<close>

text \<open>
  What \<open>transcribe_chunk\<close> returns on each path, for the segments \<open>segs\<close> that the
  transcription gave in segment-local time: one shift without alignment and after a
  successful alignment (of the aligned segments), two shifts of the transcribed segments
  when alignment is skipped or raises.
\<close>

lemma has_text_shift [simp]: "has_text (shift_segment c s) = has_text s"
  by (simp add: has_text_def shift_segment_def)

lemma filter_has_text_shift:
  "filter has_text (map (shift_segment c) segs) = map (shift_segment c) (filter has_text segs)"
  by (induction segs) simp_all

lemma transcribe_chunk_no_alignment:
  assumes "load_audio wx chunk_file = Inr chunk_audio"
    and "transcribe wx chunk_audio batch_size language = Inr res"
    and "res_segments res = Some segs"
    and "align_model = None \<or> align_metadata = None"
  shows "transcribe_chunk wx chunk_file chunk_start device batch_size language align_model align_metadata
         = res\<lparr>res_segments := Some (map (shift_segment chunk_start) segs)\<rparr>"
  using assms
  by (auto simp add: transcribe_chunk_def transcribe_chunk_body_def Let_def split: option.splits)

lemma transcribe_chunk_alignment_skipped:
  assumes "load_audio wx chunk_file = Inr chunk_audio"
    and "transcribe wx chunk_audio batch_size language = Inr res"
    and "res_segments res = Some segs"
    and "filter has_text segs = []"
  shows "transcribe_chunk wx chunk_file chunk_start device batch_size language (Some am) (Some md)
         = res\<lparr>res_segments :=
               Some (map (shift_segment chunk_start) (map (shift_segment chunk_start) segs))\<rparr>"
  using assms
  by (simp add: transcribe_chunk_def transcribe_chunk_body_def Let_def filter_has_text_shift)

lemma transcribe_chunk_alignment_raised:
  assumes "load_audio wx chunk_file = Inr chunk_audio"
    and "transcribe wx chunk_audio batch_size language = Inr res"
    and "res_segments res = Some segs"
    and "filter has_text segs \<noteq> []"
    and "align wx (filter has_text (map (shift_segment chunk_start) segs)) am md chunk_audio device
           = Inl align_error"
  shows "transcribe_chunk wx chunk_file chunk_start device batch_size language (Some am) (Some md)
         = res\<lparr>res_segments :=
               Some (map (shift_segment chunk_start)
                      (map keep_valid_words (map (shift_segment chunk_start) segs)))\<rparr>"
  using assms
  by (simp add: transcribe_chunk_def transcribe_chunk_body_def Let_def filter_has_text_shift)

lemma transcribe_chunk_aligned:
  assumes "load_audio wx chunk_file = Inr chunk_audio"
    and "transcribe wx chunk_audio batch_size language = Inr res"
    and "res_segments res = Some segs"
    and "filter has_text segs \<noteq> []"
    and "align wx (filter has_text (map (shift_segment chunk_start) segs)) am md chunk_audio device
           = Inr aligned_result"
    and "res_segments aligned_result = Some aligned"
  shows "transcribe_chunk wx chunk_file chunk_start device batch_size language (Some am) (Some md)
         = res\<lparr>res_segments := Some (map (shift_segment chunk_start) aligned)\<rparr>"
  using assms
  by (simp add: transcribe_chunk_def transcribe_chunk_body_def Let_def filter_has_text_shift)

lemma shift_keep_valid_shift:
  "seg_start (shift_segment c (keep_valid_words (shift_segment c s))) = seg_start s + 2 * c"
  "seg_end (shift_segment c (keep_valid_words (shift_segment c s))) = seg_end s + 2 * c"
  by (simp_all add: shift_segment_def keep_valid_words_def)

lemma shift_segment_twice:
  "seg_start (shift_segment c (shift_segment c s)) = seg_start s + 2 * c"
  "seg_end (shift_segment c (shift_segment c s)) = seg_end s + 2 * c"
  by (simp_all add: shift_segment_def)

text \<open>
  C1 at a failing input. A chunk starting at 60 seconds is transcribed with an alignment
  model. When the only segment (local times 1 and 2) has blank text, alignment is skipped;
  when the segment is spoken and alignment raises, the unaligned transcript is kept. On
  both paths every timestamp comes back as 121 and 122, the local value plus twice the
  chunk start, where one shift gives 61 and 62.
\<close>

theorem transcribe_chunk_shifts_twice:
  "transcribe_chunk (wx_align_raises one_blank_segment) (ascii ''c0.wav'') 60 (ascii ''cpu'') 16
     (Some (ascii ''en'')) (Some ()) (Some ())
   = \<lparr>res_segments = Some [\<lparr>seg_text = [32], seg_start = 121, seg_end = 122, seg_words = None\<rparr>],
      res_language = Some (ascii ''en'')\<rparr>
   \<and> transcribe_chunk (wx_align_raises one_spoken_segment) (ascii ''c0.wav'') 60 (ascii ''cpu'') 16
     (Some (ascii ''en'')) (Some ()) (Some ())
   = \<lparr>res_segments = Some [\<lparr>seg_text = ascii ''hi'', seg_start = 121, seg_end = 122,
         seg_words = Some [\<lparr>w_word = ascii ''hi'', w_start = 121, w_end = 122\<rparr>]\<rparr>],
      res_language = Some (ascii ''en'')\<rparr>"
  by (simp add: transcribe_chunk_def transcribe_chunk_body_def wx_align_raises_def
      one_blank_segment_def one_spoken_segment_def shift_segment_def shift_word_def has_text_def
      keep_valid_words_def valid_word_def strip_def isspace_def whitespace_points_def ascii_def)




section \<open>Properties of the chunker\<close>









lemma split_audio_file_ffmpeg_unavailable:
  assumes "0 < D" "C < D" "\<not> ffmpeg_ok 0 0 (min C D)"
  shows "split_audio_file ffmpeg_ok D C = Some [(Original, 0, D)]"
  using assms by (simp add: split_audio_file_def split_loop.simps)


text \<open>The scenario of the specification: 150 seconds in chunks of 60.\<close>

lemma chunker_150_60:
  "transcribe_audio_spans (\<lambda>_ _ _. True) True 150 60
     = Some [(ChunkFile 0, 0, 60), (ChunkFile 1, 60, 120), (ChunkFile 2, 120, 150)]"
  by (simp add: transcribe_audio_spans_def should_chunk_def split_audio_file_def
      split_loop.simps)


section \<open>Properties of the concurrency coordinators\<close>

lemma collect_summaries_lookup:
  "collect_summaries f cs d i = (if i \<in> set cs then Some (summary_of f i) else d i)"
  by (induction cs arbitrary: d) (auto simp add: summary_of_def split: sum.splits)

lemma assemble_collected:
  assumes "set cs = {1 .. total_chunks}"
  shows "assemble_summaries (collect_summaries f cs Map.empty) total_chunks
           = map (summary_of f) [1 ..< total_chunks + 1]"
proof -
  have "\<forall>i \<in> set [1 ..< total_chunks + 1]. collect_summaries f cs Map.empty i = Some (summary_of f i)"
    using assms by (auto simp add: collect_summaries_lookup)
  then show ?thesis
    unfolding assemble_summaries_def
    by (induction "[1 ..< total_chunks + 1]" arbitrary: total_chunks) (auto simp add: List.map_filter_def)
qed

lemma collect_results_append:
  "collect_results f ct acc = acc @ List.map_filter (result_of f) ct"
  by (induction ct arbitrary: acc)
    (auto simp add: List.map_filter_def result_of_def split: sum.splits)

lemma mset_map_filter_cong:
  assumes "mset xs = mset ys"
  shows "mset (List.map_filter g xs) = mset (List.map_filter g ys)"
  unfolding List.map_filter_def using assms by (metis mset_filter mset_map)

text \<open>
  C3, as the code has it. In \<open>summarize_text\<close>, once every submitted future has completed,
  the chunk summaries handed to the reduction are in submission order, assembled by chunk
  index, whatever the order of completion. In \<open>transcribe_audio\<close> the results handed to
  the result merger are in the order of completion (those of the futures that did not
  raise): the same results as in submission order, but not reassembled by index.
\<close>

theorem collected_order:
  "(set completion_s = {1 .. total_chunks} \<longrightarrow>
      assemble_summaries (collect_summaries fs completion_s Map.empty) total_chunks
        = map (summary_of fs) [1 ..< total_chunks + 1])
   \<and> transcribe_audio_results ft completion_t = List.map_filter (result_of ft) completion_t
   \<and> (mset completion_t = mset [0 ..< n] \<longrightarrow>
        mset (transcribe_audio_results ft completion_t)
          = mset (transcribe_audio_results ft [0 ..< n]))"
  using assemble_collected [of completion_s total_chunks fs]
    mset_map_filter_cong [of completion_t "[0 ..< n]" "result_of ft"]
  by (simp add: transcribe_audio_results_def collect_results_append)

theorem collected_order_witness:
  "assemble_summaries
     (collect_summaries (\<lambda>i. if i = 2 then Inl (Exception (ascii ''x'')) else Inr (ascii ''s''))
        [3, 1, 2] Map.empty) 3
     = [ascii ''s'', summary_failed (Exception (ascii ''x'')), ascii ''s'']
   \<and> mset (transcribe_audio_results chunk_result_at [1, 0])
     = mset (transcribe_audio_results chunk_result_at [0, 1])"
  using collected_order [of "[3, 1, 2]" 3
      "\<lambda>i. if i = 2 then Inl (Exception (ascii ''x'')) else Inr (ascii ''s'')"
      chunk_result_at "[1, 0]" 2]
  by (auto simp add: summary_of_def upt_rec)

text \<open>
  The claim as stated fails for \<open>transcribe_audio\<close>: when the second chunk completes
  before the first, the list handed to the merger is not the list in submission order.
\<close>

theorem collected_order_counterexample:
  "transcribe_audio_results chunk_result_at [1, 0]
     \<noteq> transcribe_audio_results chunk_result_at [0, 1]"
  by (simp add: transcribe_audio_results_def chunk_result_at_def)

section \<open>Properties of the text chunker\<close>

lemma strip_Nil [simp]: "strip [] = []"
  by (simp add: strip_def)

lemma strip_ends:
  assumes "strip s \<noteq> []"
  shows "\<not> isspace (hd (strip s))" and "\<not> isspace (last (strip s))"
proof -
  define t where "t = dropWhile isspace s"
  define u where "u = dropWhile isspace (rev t)"
  have su: "strip s = rev u" by (simp add: strip_def t_def u_def)
  then have u: "u \<noteq> []" using assms by simp
  then have t: "t \<noteq> []" by (auto simp add: u_def)
  have "\<not> isspace (hd u)" using u unfolding u_def by (rule hd_dropWhile)
  then show "\<not> isspace (last (strip s))" using u by (simp add: su last_rev)
  have "rev t = takeWhile isspace (rev t) @ u" by (simp add: u_def)
  then have "last (rev t) = last u" using u by (metis last_appendR)
  then have "last u = hd t" using t by (simp add: last_rev)
  moreover have "\<not> isspace (hd t)" using t unfolding t_def by (rule hd_dropWhile)
  ultimately show "\<not> isspace (hd (strip s))" using u by (simp add: su hd_rev)
qed

lemma strip_fixed:
  assumes "u \<noteq> []" "\<not> isspace (hd u)" "\<not> isspace (last u)"
  shows "strip u = u"
proof -
  have "dropWhile isspace u = u" using assms(2) by (simp add: dropWhile_eq_self_iff)
  moreover have "dropWhile isspace (rev u) = rev u"
    using assms(1,3) by (simp add: dropWhile_eq_self_iff hd_rev)
  ultimately show ?thesis by (simp add: strip_def)
qed

lemma strip_idem: "strip (strip s) = strip s"
  by (cases "strip s = []") (simp_all add: strip_fixed strip_ends)

lemma strip_not_blank:
  assumes "strip s \<noteq> []"
  shows "\<not> list_all isspace (strip s)"
  using assms strip_ends(1) [OF assms] by (cases "strip s") auto

lemma next_start_greater: "start < next_start end_pos chunk_overlap start"
  by (simp add: next_start_def)

lemma split_text_loop_returns:
  "\<exists>chunks. split_text_loop text chunk_size chunk_overlap start acc = Some chunks"
proof (induction "nat (int (length text) - start)" arbitrary: start acc rule: less_induct)
  case less
  show ?case
  proof (cases "start < int (length text)")
    case True
    let ?next = "next_start (chunk_end text chunk_size start) chunk_overlap start"
    have "nat (int (length text) - ?next) < nat (int (length text) - start)"
      using True next_start_greater [of start "chunk_end text chunk_size start" chunk_overlap]
      by linarith
    from less [OF this] show ?thesis
      by (subst split_text_loop.simps) (simp add: True)
  next
    case False
    then show ?thesis by (subst split_text_loop.simps) simp
  qed
qed

lemma good_append_chunk:
  assumes "list_all good_chunk acc"
  shows "list_all good_chunk (append_chunk acc (strip x))"
  using assms strip_not_blank [of x]
  by (simp add: append_chunk_def good_chunk_def strip_idem)

lemma split_text_loop_good:
  "split_text_loop text chunk_size chunk_overlap start acc = Some chunks \<Longrightarrow>
   list_all good_chunk acc \<Longrightarrow> list_all good_chunk chunks"
proof (induction "nat (int (length text) - start)" arbitrary: start acc rule: less_induct)
  case less
  show ?case
  proof (cases "start < int (length text)")
    case True
    let ?next = "next_start (chunk_end text chunk_size start) chunk_overlap start"
    let ?acc = "append_chunk acc (strip (py_slice text start (chunk_end text chunk_size start)))"
    have m: "nat (int (length text) - ?next) < nat (int (length text) - start)"
      using True next_start_greater [of start "chunk_end text chunk_size start" chunk_overlap]
      by linarith
    have "split_text_loop text chunk_size chunk_overlap ?next ?acc = Some chunks"
      using less.prems(1) by (subst (asm) split_text_loop.simps) (simp add: True)
    from less.hyps [OF m this good_append_chunk [OF less.prems(2)]] show ?thesis .
  next
    case False
    then show ?thesis
      using less.prems by (subst (asm) split_text_loop.simps) simp
  qed
qed

lemma slice_single: "py_slice [c] 0 e = [] \<or> py_slice [c] 0 e = [c]"
  by (cases "nat (norm_index 1 e)") (auto simp add: py_slice_def norm_index_def Let_def)

lemma strip_single: "strip [c] = (if isspace c then [] else [c])"
  by (simp add: strip_def)

lemma split_single_after:
  "1 \<le> start \<Longrightarrow> split_text_loop [c] chunk_size chunk_overlap start acc = Some acc"
  by (subst split_text_loop.simps) simp

lemma split_single_space:
  assumes "isspace c"
  shows "split_text_into_chunks [c] chunk_size chunk_overlap = Some []"
proof -
  have "strip (py_slice [c] 0 e) = []" for e
    using slice_single [of c e] assms by (auto simp add: strip_single)
  then have a: "append_chunk [] (strip (py_slice [c] 0 e)) = []" for e
    by (simp add: append_chunk_def)
  have "1 \<le> next_start e chunk_overlap 0" for e by (simp add: next_start_def)
  then show ?thesis
    unfolding split_text_into_chunks_def
    by (subst split_text_loop.simps) (simp add: a split_single_after)
qed

lemma split_single_char:
  assumes "\<not> isspace c" "1 \<le> chunk_size"
  shows "split_text_into_chunks [c] chunk_size chunk_overlap = Some [[c]]"
proof -
  have e: "chunk_end [c] chunk_size 0 = 1" using assms(2) by (simp add: chunk_end_def)
  have s: "py_slice [c] 0 1 = [c]" by (simp add: py_slice_def norm_index_def)
  have "1 \<le> next_start 1 chunk_overlap 0" by (simp add: next_start_def)
  then show ?thesis
    unfolding split_text_into_chunks_def
    by (subst split_text_loop.simps)
      (simp add: e s strip_single assms(1) append_chunk_def split_single_after)
qed

text \<open>
  C7, as the code has it. Splitting the empty text with chunk size 100000 and overlap 300
  gives no chunk. A text of one character gives exactly one chunk, the character itself,
  when the character is not whitespace and the chunk size is at least 1; a text of one
  whitespace character gives no chunk. No chunk of any output is empty, unstripped or made
  of whitespace only: such a chunk is dropped.
\<close>

theorem split_text_boundaries:
  "split_text_into_chunks [] 100000 300 = Some []
   \<and> (\<not> isspace c \<and> 1 \<le> chunk_size \<longrightarrow>
        split_text_into_chunks [c] chunk_size chunk_overlap = Some [[c]])
   \<and> (isspace c \<longrightarrow> split_text_into_chunks [c] chunk_size chunk_overlap = Some [])
   \<and> (split_text_into_chunks text chunk_size chunk_overlap = Some chunks \<longrightarrow>
        (\<forall>chunk \<in> set chunks. chunk \<noteq> [] \<and> strip chunk = chunk \<and> \<not> list_all isspace chunk))"
proof (intro conjI impI)
  show "split_text_into_chunks [] 100000 300 = Some []"
    by (simp add: split_text_into_chunks_def)
next
  assume "\<not> isspace c \<and> 1 \<le> chunk_size"
  then show "split_text_into_chunks [c] chunk_size chunk_overlap = Some [[c]]"
    by (simp add: split_single_char)
next
  assume "isspace c"
  then show "split_text_into_chunks [c] chunk_size chunk_overlap = Some []"
    by (rule split_single_space)
next
  assume r: "split_text_into_chunks text chunk_size chunk_overlap = Some chunks"
  have "list_all good_chunk chunks"
  proof (cases "text = []")
    case True
    then show ?thesis using r by (simp add: split_text_into_chunks_def)
  next
    case False
    then have "split_text_loop text chunk_size chunk_overlap 0 [] = Some chunks"
      using r by (simp add: split_text_into_chunks_def)
    then show ?thesis by (rule split_text_loop_good) simp
  qed
  then show "\<forall>chunk \<in> set chunks. chunk \<noteq> [] \<and> strip chunk = chunk \<and> \<not> list_all isspace chunk"
    by (simp add: list_all_iff good_chunk_def)
qed

theorem split_text_boundaries_witness:
  "split_text_into_chunks [97] 100000 300 = Some [[97]]
   \<and> split_text_into_chunks [32] 100000 300 = Some []
   \<and> strip [97] = [97] \<and> \<not> list_all isspace [97]"
  using split_text_boundaries [of 97 100000 300 "[97]" "[[97]]"]
    split_text_boundaries [of 32 100000 300 "[]" "[]"]
  by (simp add: isspace_def whitespace_points_def)

text \<open>
  The claim as stated fails: the text of one blank is a one-character text, and it yields
  no chunk.
\<close>

theorem split_text_boundaries_counterexample:
  "\<not> (\<exists>chunk. split_text_into_chunks [32] 100000 300 = Some [chunk])"
  by (simp add: split_single_space isspace_def whitespace_points_def)


text \<open>
  C8. Each iteration sets the next start to \<open>max (end - overlap) (start + 1)\<close>, which is
  greater than the current start, and \<open>split_text_into_chunks\<close> returns on every text,
  chunk size and overlap.
\<close>

theorem split_text_terminates:
  "next_start end_pos chunk_overlap start = max (end_pos - chunk_overlap) (start + 1)
   \<and> start < next_start end_pos chunk_overlap start
   \<and> (\<exists>chunks. split_text_into_chunks text chunk_size chunk_overlap = Some chunks)"
  using split_text_loop_returns [of "text" chunk_size chunk_overlap 0 "[]"]
  by (simp add: next_start_def split_text_into_chunks_def)

theorem split_text_terminates_witness:
  "next_start 2 5 0 = 1
   \<and> (\<exists>chunks. split_text_into_chunks (ascii ''abc'') 2 5 = Some chunks)"
  using split_text_terminates [of 2 5 0 "ascii ''abc''" 2]
  by (simp add: next_start_def)

section \<open>Properties of the chunk summarizer and the summary reducer\<close>







end
